theory Spec2Isabelle
  imports Main
begin

section \<open>The vendor SDK's data shapes\<close>

text \<open>
  \<^verbatim>\<open>src/GeminiX.ts\<close> imports its request and response shapes from
  \<^verbatim>\<open>@google/generative-ai\<close>. Only \<^verbatim>\<open>GenerativeContentBlob\<close> is declared in the
  repository; the other shapes are written here with exactly the fields and enum
  members that the adapter reads or writes.
\<close>

record GenerativeContentBlob =
  mimeType :: string
  data :: string

text \<open>
  A \<^verbatim>\<open>Part\<close> is read by the adapter through two optional properties,
  \<^verbatim>\<open>part.text\<close> and \<^verbatim>\<open>part.inlineData\<close>; an absent property is \<open>None\<close>.
\<close>

record Part =
  text' :: "string option"
  inlineData :: "GenerativeContentBlob option"

definition TextPart :: "string \<Rightarrow> Part" where
  "TextPart t = \<lparr>text' = Some t, inlineData = None\<rparr>"

definition InlineDataPart :: "GenerativeContentBlob \<Rightarrow> Part" where
  "InlineDataPart blob = \<lparr>text' = None, inlineData = Some blob\<rparr>"

text \<open>
  \<^verbatim>\<open>Content\<close> and \<^verbatim>\<open>InputContent\<close>: a role-tagged turn with its parts. The adapter
  always writes \<^verbatim>\<open>parts\<close>; a turn that the conversation stores itself can lack the
  property (the SDK stores the turn \<^verbatim>\<open>{role: "model"}\<close> for a streamed reply without
  content), and \<open>None\<close> is that absent property.
\<close>

record Content =
  role :: string
  parts :: "Part list option"

text \<open>An element of the array literal \<^verbatim>\<open>[inputText, ...imageParts]\<close>: a string or a part.\<close>

datatype RequestElem = Str string | Prt Part

text \<open>
  The argument of the model's \<^verbatim>\<open>countTokens\<close>: the array form used by
  \<^verbatim>\<open>GeminiX.countTokens\<close>, or the object form \<^verbatim>\<open>{contents}\<close> used by
  \<^verbatim>\<open>GeminiX.countChatTokens\<close>.
\<close>

datatype CountTokensRequest = Request "RequestElem list" | Contents "Content list"

text \<open>The vendor's enums; the members are those of the SDK's declaration.\<close>

datatype HarmCategory =
    HARM_CATEGORY_UNSPECIFIED
  | HARM_CATEGORY_HATE_SPEECH
  | HARM_CATEGORY_SEXUALLY_EXPLICIT
  | HARM_CATEGORY_HARASSMENT
  | HARM_CATEGORY_DANGEROUS_CONTENT

datatype HarmBlockThreshold =
    HARM_BLOCK_THRESHOLD_UNSPECIFIED
  | BLOCK_LOW_AND_ABOVE
  | BLOCK_MEDIUM_AND_ABOVE
  | BLOCK_ONLY_HIGH
  | BLOCK_NONE

record SafetySetting =
  category :: HarmCategory
  threshold :: HarmBlockThreshold

text \<open>
  JavaScript numbers are passed through to the SDK unchanged, so their type is the
  parameter \<open>'n\<close>.
\<close>

record 'n GenerationConfig =
  temperature :: "'n option"
  topK :: "'n option"
  topP :: "'n option"
  maxOutputTokens :: "'n option"
  stopSequences :: "string list option"

text \<open>The argument of \<^verbatim>\<open>getGenerativeModel\<close>.\<close>

record 'n VendorModelParams =
  model :: string
  safetySettings :: "SafetySetting list"
  generationConfig :: "'n GenerationConfig"

text \<open>\<^verbatim>\<open>new GoogleGenerativeAI(apiKey)\<close>: the client, which keeps the key.\<close>

datatype GoogleGenerativeAI = GoogleGenerativeAI string

text \<open>
  A response object (and a stream chunk) is read only through \<^verbatim>\<open>text()\<close>, which
  returns the text or throws; \<open>Inl\<close> is the thrown value.
\<close>

type_synonym 'e Response = "'e + string"

text \<open>
  \<^verbatim>\<open>result.stream\<close>, as the \<^verbatim>\<open>for await\<close> loop sees it: it yields a chunk,
  ends, or throws. The stream of one HTTP response is finite.
\<close>

datatype 'e ResponseStream =
    End
  | Chunk "'e Response" "'e ResponseStream"
  | Abort 'e

text \<open>
  What the loop reads from a stream: the texts of the chunks up to the point where the
  stream ends or something is thrown, and the thrown value if there is one (by the
  stream itself or by a chunk's \<^verbatim>\<open>text()\<close>).
\<close>

fun received :: "'e ResponseStream \<Rightarrow> string list" where
  "received End = []"
| "received (Abort e) = []"
| "received (Chunk (Inl e) rest) = []"
| "received (Chunk (Inr chunkText) rest) = chunkText # received rest"

fun failure :: "'e ResponseStream \<Rightarrow> 'e option" where
  "failure End = None"
| "failure (Abort e) = Some e"
| "failure (Chunk (Inl e) rest) = Some e"
| "failure (Chunk (Inr chunkText) rest) = failure rest"

section \<open>The adapter's own types\<close>

text \<open>
  The two string enums of \<^verbatim>\<open>src/GeminiX.ts\<close>. At run time a member is its string,
  and \<^verbatim>\<open>initModel\<close> passes arbitrary object keys and values to the mapping
  functions (\<^verbatim>\<open>as any\<close>), so the mapping functions take strings.
\<close>

definition SafetySettingLevel_NONE :: string where
  "SafetySettingLevel_NONE = ''NONE''"
definition SafetySettingLevel_ONLY_HIGH :: string where
  "SafetySettingLevel_ONLY_HIGH = ''ONLY_HIGH''"
definition SafetySettingLevel_MEDIUM_AND_ABOVE :: string where
  "SafetySettingLevel_MEDIUM_AND_ABOVE = ''MEDIUM_AND_ABOVE''"
definition SafetySettingLevel_LOW_AND_ABOVE :: string where
  "SafetySettingLevel_LOW_AND_ABOVE = ''LOW_AND_ABOVE''"
definition SafetySettingLevel_UNSPECIFIED :: string where
  "SafetySettingLevel_UNSPECIFIED = ''UNSPECIFIED''"

definition SafetySettingHarmCategory_HARASSMENT :: string where
  "SafetySettingHarmCategory_HARASSMENT = ''HARASSMENT''"
definition SafetySettingHarmCategory_HATE_SPEECH :: string where
  "SafetySettingHarmCategory_HATE_SPEECH = ''HATE_SPEECH''"
definition SafetySettingHarmCategory_SEXUALLY_EXPLICIT :: string where
  "SafetySettingHarmCategory_SEXUALLY_EXPLICIT = ''SEXUALLY_EXPLICIT''"
definition SafetySettingHarmCategory_DANGEROUS_CONTENT :: string where
  "SafetySettingHarmCategory_DANGEROUS_CONTENT = ''DANGEROUS_CONTENT''"
definition SafetySettingHarmCategory_UNSPECIFIED :: string where
  "SafetySettingHarmCategory_UNSPECIFIED = ''UNSPECIFIED''"

text \<open>
  \<^verbatim>\<open>SafetySettings\<close>: an object from category keys to levels, as the
  \<^verbatim>\<open>for ... in\<close> loop enumerates it (key and value, in property order).
\<close>

type_synonym SafetySettings = "(string \<times> string) list"

record 'n ModelParams =
  modelName :: string
  apiKey :: string
  temperature :: "'n option"
  topK :: "'n option"
  topP :: "'n option"
  maxOutputTokens :: "'n option"
  stopSequences :: "string list option"
  safetySettings :: "SafetySettings option"

record ChatHistoryItem =
  isUser :: bool
  text' :: "string option"
  images :: "GenerativeContentBlob list option"

record ModelChatHistoryPart =
  type :: string
  content :: string

record ModelChatHistoryItem =
  isUser :: bool
  parts :: "ModelChatHistoryPart list"

text \<open>
  The caller's \<^verbatim>\<open>onResponseChunk\<close> is a JavaScript function: it may change the
  caller's state \<open>'s\<close> and it may throw (\<open>Some\<close> of the thrown value).
\<close>

type_synonym ('s, 'e) Callback = "string \<Rightarrow> 's \<Rightarrow> 's \<times> 'e option"

record ('s, 'e) SendMessageOptions =
  images :: "GenerativeContentBlob list option"
  onResponseChunk :: "('s, 'e) Callback option"

record CountTokensOptions =
  images :: "GenerativeContentBlob list option"

record CountChatTokensOptions =
  inputText :: "string option"
  images :: "GenerativeContentBlob list option"

text \<open>
  What a call can fail with: \<^verbatim>\<open>new Error(message)\<close> constructed by the adapter
  itself; the \<^verbatim>\<open>TypeError\<close> that the run time raises when a statement of the adapter
  iterates over \<^verbatim>\<open>undefined\<close>; or a value thrown by the SDK or by the caller's
  callback, which the adapter does not catch.
\<close>

datatype 'e error = Error string | TypeError | Thrown 'e

definition NotInitializedError :: "'e error" where
  "NotInitializedError = Error ''Model not initialized''"

definition ChatNotInitializedError :: "'e error" where
  "ChatNotInitializedError = Error ''Chat not initialized''"

section \<open>The enum mappings\<close>

definition mapHarmCategory :: "string \<Rightarrow> HarmCategory" where
  "mapHarmCategory harmCategory =
     (if harmCategory = SafetySettingHarmCategory_HARASSMENT then HARM_CATEGORY_HARASSMENT
      else if harmCategory = SafetySettingHarmCategory_HATE_SPEECH then HARM_CATEGORY_HATE_SPEECH
      else if harmCategory = SafetySettingHarmCategory_SEXUALLY_EXPLICIT
        then HARM_CATEGORY_SEXUALLY_EXPLICIT
      else if harmCategory = SafetySettingHarmCategory_DANGEROUS_CONTENT
        then HARM_CATEGORY_DANGEROUS_CONTENT
      else if harmCategory = SafetySettingHarmCategory_UNSPECIFIED then HARM_CATEGORY_UNSPECIFIED
      else HARM_CATEGORY_UNSPECIFIED)"

definition mapSafetySettingLevel :: "string \<Rightarrow> HarmBlockThreshold" where
  "mapSafetySettingLevel safetySettingLevel =
     (if safetySettingLevel = SafetySettingLevel_NONE then BLOCK_NONE
      else if safetySettingLevel = SafetySettingLevel_ONLY_HIGH then BLOCK_ONLY_HIGH
      else if safetySettingLevel = SafetySettingLevel_MEDIUM_AND_ABOVE then BLOCK_MEDIUM_AND_ABOVE
      else if safetySettingLevel = SafetySettingLevel_LOW_AND_ABOVE then BLOCK_MEDIUM_AND_ABOVE
      else if safetySettingLevel = SafetySettingLevel_UNSPECIFIED
        then HARM_BLOCK_THRESHOLD_UNSPECIFIED
      else HARM_BLOCK_THRESHOLD_UNSPECIFIED)"


section \<open>The boundary to the SDK\<close>

text \<open>
  The SDK is an external collaborator: what its calls answer is a parameter of every
  operation. A call returns its value or throws (\<open>Inl\<close>). The model handle \<open>'m\<close> and
  the conversation handle \<open>'c\<close> are the SDK's objects; a conversation's calls change
  the conversation object itself, so they return the handle after the call as well.
\<close>

record ('n, 'm, 'c, 'e) SDK =
  ai_getGenerativeModel :: "GoogleGenerativeAI \<Rightarrow> 'n VendorModelParams \<Rightarrow> 'e + 'm"
  model_generateContent :: "'m \<Rightarrow> RequestElem list \<Rightarrow> 'e + 'e Response"
  model_generateContentStream :: "'m \<Rightarrow> RequestElem list \<Rightarrow> 'e + 'e ResponseStream"
  model_countTokens :: "'m \<Rightarrow> CountTokensRequest \<Rightarrow> 'e + int"
  model_startChat :: "'m \<Rightarrow> Content list \<Rightarrow> 'e + 'c"
  chat_sendMessage :: "'c \<Rightarrow> RequestElem list \<Rightarrow> 'c \<times> ('e + 'e Response)"
  chat_sendMessageStream :: "'c \<Rightarrow> RequestElem list \<Rightarrow> 'c \<times> ('e + 'e ResponseStream)"
  chat_getHistory :: "'c \<Rightarrow> 'e + Content list"

section \<open>The adapter's state\<close>

text \<open>The three static fields of \<^verbatim>\<open>class GeminiX\<close>; \<open>None\<close> is \<^verbatim>\<open>undefined\<close>.\<close>

record ('m, 'c) GeminiX =
  generativeAI :: "GoogleGenerativeAI option"
  model :: "'m option"
  chat :: "'c option"

definition uninitialized :: "('m, 'c) GeminiX" where
  "uninitialized = \<lparr>generativeAI = None, model = None, chat = None\<rparr>"

section \<open>JavaScript truthiness of an optional string\<close>

text \<open>\<^verbatim>\<open>if (s)\<close> on a \<^verbatim>\<open>string | undefined\<close>: true for a non-empty string only.\<close>

definition truthy :: "string option \<Rightarrow> bool" where
  "truthy s = (case s of None \<Rightarrow> False | Some t \<Rightarrow> t \<noteq> [])"

text \<open>\<^verbatim>\<open>a || b\<close> on optional strings.\<close>

definition js_or :: "string option \<Rightarrow> string option \<Rightarrow> string option" where
  "js_or a b = (if truthy a then a else b)"

text \<open>\<^verbatim>\<open>a || d\<close> where \<open>d\<close> is a string literal: the result is a string.\<close>

definition js_or_default :: "string option \<Rightarrow> string \<Rightarrow> string" where
  "js_or_default a d = (case a of None \<Rightarrow> d | Some t \<Rightarrow> if t \<noteq> [] then t else d)"

section \<open>The operations\<close>

subsection \<open>initModel\<close>

text \<open>
  The \<^verbatim>\<open>for (const harmCategory in params.safetySettings)\<close> loop; \<open>pushed\<close> is the
  array \<^verbatim>\<open>safetySettings\<close> that the loop pushes to.
\<close>

fun safetySettingsLoop :: "SafetySettings \<Rightarrow> SafetySetting list \<Rightarrow> SafetySetting list" where
  "safetySettingsLoop [] pushed = pushed"
| "safetySettingsLoop ((harmCategory, harmBlockThreshold) # rest) pushed =
     safetySettingsLoop rest
       (pushed @
        [\<lparr>category = mapHarmCategory harmCategory,
          threshold = mapSafetySettingLevel harmBlockThreshold\<rparr>])"

definition initModel ::
  "('n, 'm, 'c, 'e) SDK \<Rightarrow> ('m, 'c) GeminiX \<Rightarrow> 'n ModelParams \<Rightarrow>
   ('m, 'c) GeminiX \<times> ('e error + unit)" where
  "initModel sdk this params =
     (let ai = GoogleGenerativeAI (ModelParams.apiKey params);
          this1 = this\<lparr>generativeAI := Some ai\<rparr>;
          safetySettings =
            (case ModelParams.safetySettings params of
               None \<Rightarrow> []
             | Some settings \<Rightarrow> safetySettingsLoop settings [])
      in case ai_getGenerativeModel sdk ai
              \<lparr>VendorModelParams.model = ModelParams.modelName params,
               VendorModelParams.safetySettings = safetySettings,
               generationConfig =
                 \<lparr>GenerationConfig.temperature = ModelParams.temperature params,
                  GenerationConfig.topK = ModelParams.topK params,
                  GenerationConfig.topP = ModelParams.topP params,
                  GenerationConfig.maxOutputTokens = ModelParams.maxOutputTokens params,
                  GenerationConfig.stopSequences = ModelParams.stopSequences params\<rparr>\<rparr> of
           Inl e \<Rightarrow> (this1, Inl (Thrown e))
         | Inr m \<Rightarrow> (this1\<lparr>GeminiX.model := Some m\<rparr>, Inr ()))"

subsection \<open>Building the parts of a request\<close>

text \<open>
  \<^verbatim>\<open>for (const image of images) { parts.push({inlineData: image}); }\<close>: the second
  argument is the array pushed to.
\<close>

fun pushImages :: "GenerativeContentBlob list \<Rightarrow> Part list \<Rightarrow> Part list" where
  "pushImages [] imageParts = imageParts"
| "pushImages (blob # rest) imageParts = pushImages rest (imageParts @ [InlineDataPart blob])"

text \<open>\<^verbatim>\<open>options.images || []\<close>: an array is always truthy.\<close>

definition imagesOrEmpty :: "GenerativeContentBlob list option \<Rightarrow> GenerativeContentBlob list" where
  "imagesOrEmpty imgs = (case imgs of None \<Rightarrow> [] | Some xs \<Rightarrow> xs)"

text \<open>The array literal \<^verbatim>\<open>[inputText, ...imageParts]\<close>.\<close>

definition requestOf :: "string \<Rightarrow> Part list \<Rightarrow> RequestElem list" where
  "requestOf inputText' imageParts = Str inputText' # map Prt imageParts"

subsection \<open>sendMessage\<close>

text \<open>\<^verbatim>\<open>options?.onResponseChunk?.(chunkText)\<close>\<close>

definition callOnResponseChunk ::
  "('s, 'e) SendMessageOptions option \<Rightarrow> string \<Rightarrow> 's \<Rightarrow> 's \<times> 'e option" where
  "callOnResponseChunk options chunkText s =
     (case options of
        None \<Rightarrow> (s, None)
      | Some opts \<Rightarrow>
          (case onResponseChunk opts of
             None \<Rightarrow> (s, None)
           | Some callback \<Rightarrow> callback chunkText s))"

text \<open>
  The \<^verbatim>\<open>for await (const chunk of result.stream)\<close> loop; the third argument is
  \<^verbatim>\<open>responseText\<close>, the fourth the caller's state.
\<close>

fun consumeStream ::
  "('s, 'e) SendMessageOptions option \<Rightarrow> 'e ResponseStream \<Rightarrow> string \<Rightarrow> 's \<Rightarrow>
   's \<times> ('e error + string)" where
  "consumeStream options End responseText s = (s, Inr responseText)"
| "consumeStream options (Abort e) responseText s = (s, Inl (Thrown e))"
| "consumeStream options (Chunk chunk rest) responseText s =
     (case chunk of
        Inl e \<Rightarrow> (s, Inl (Thrown e))
      | Inr chunkText \<Rightarrow>
          (case callOnResponseChunk options chunkText s of
             (s1, Some e) \<Rightarrow> (s1, Inl (Thrown e))
           | (s1, None) \<Rightarrow> consumeStream options rest (responseText @ chunkText) s1))"

text \<open>\<^verbatim>\<open>if (options?.onResponseChunk) streamResponse = true\<close>\<close>

definition streamResponseOf :: "('s, 'e) SendMessageOptions option \<Rightarrow> bool" where
  "streamResponseOf options =
     (case options of
        None \<Rightarrow> False
      | Some opts \<Rightarrow> (case onResponseChunk opts of None \<Rightarrow> False | Some callback \<Rightarrow> True))"

definition imagePartsOf :: "('s, 'e) SendMessageOptions option \<Rightarrow> Part list" where
  "imagePartsOf options =
     (case options of
        None \<Rightarrow> []
      | Some opts \<Rightarrow> pushImages (imagesOrEmpty (SendMessageOptions.images opts)) [])"

text \<open>\<^verbatim>\<open>response.text()\<close> after a single-shot request.\<close>

definition responseTextOf :: "'e Response \<Rightarrow> 'e error + string" where
  "responseTextOf response = (case response of Inl e \<Rightarrow> Inl (Thrown e) | Inr t \<Rightarrow> Inr t)"

definition sendMessage ::
  "('n, 'm, 'c, 'e) SDK \<Rightarrow> ('m, 'c) GeminiX \<Rightarrow> string \<Rightarrow>
   ('s, 'e) SendMessageOptions option \<Rightarrow> 's \<Rightarrow> 's \<times> ('e error + string)" where
  "sendMessage sdk this inputText' options s =
     (case GeminiX.model this of
        None \<Rightarrow> (s, Inl (Error ''Model not initialized''))
      | Some m \<Rightarrow>
          (let streamResponse = streamResponseOf options;
               imageParts = imagePartsOf options
           in if streamResponse then
                (case model_generateContentStream sdk m (requestOf inputText' imageParts) of
                   Inl e \<Rightarrow> (s, Inl (Thrown e))
                 | Inr stream \<Rightarrow> consumeStream options stream [] s)
              else
                (case model_generateContent sdk m (requestOf inputText' imageParts) of
                   Inl e \<Rightarrow> (s, Inl (Thrown e))
                 | Inr response \<Rightarrow> (s, responseTextOf response))))"

subsection \<open>countTokens\<close>

definition countTokens ::
  "('n, 'm, 'c, 'e) SDK \<Rightarrow> ('m, 'c) GeminiX \<Rightarrow> string \<Rightarrow> CountTokensOptions option \<Rightarrow>
   'e error + int" where
  "countTokens sdk this inputText' options =
     (case GeminiX.model this of
        None \<Rightarrow> Inl (Error ''Model not initialized'')
      | Some m \<Rightarrow>
          (let imageParts =
                 (case options of
                    None \<Rightarrow> []
                  | Some opts \<Rightarrow> pushImages (imagesOrEmpty (CountTokensOptions.images opts)) [])
           in case model_countTokens sdk m (Request (requestOf inputText' imageParts)) of
                Inl e \<Rightarrow> Inl (Thrown e)
              | Inr totalTokens \<Rightarrow> Inr totalTokens))"

subsection \<open>initChat\<close>

text \<open>The body of the loop over \<^verbatim>\<open>chatHistory\<close>: the turn built from one item.\<close>

definition modelChatHistoryItemOf :: "ChatHistoryItem \<Rightarrow> Content" where
  "modelChatHistoryItemOf chatHistoryItem =
     (let parts0 = [];
          parts1 =
            (if truthy (ChatHistoryItem.text' chatHistoryItem)
             then parts0 @ [\<lparr>Part.text' = ChatHistoryItem.text' chatHistoryItem, inlineData = None\<rparr>]
             else parts0);
          parts2 =
            (case ChatHistoryItem.images chatHistoryItem of
               None \<Rightarrow> parts1
             | Some imgs \<Rightarrow> pushImages imgs parts1)
      in \<lparr>role = (if ChatHistoryItem.isUser chatHistoryItem then ''user'' else ''model''),
          Content.parts = Some parts2\<rparr>)"

fun chatHistoryLoop :: "ChatHistoryItem list \<Rightarrow> Content list \<Rightarrow> Content list" where
  "chatHistoryLoop [] modelChatHistory = modelChatHistory"
| "chatHistoryLoop (chatHistoryItem # rest) modelChatHistory =
     chatHistoryLoop rest (modelChatHistory @ [modelChatHistoryItemOf chatHistoryItem])"

text \<open>The \<^verbatim>\<open>history\<close> of the \<^verbatim>\<open>StartChatParams\<close> that \<^verbatim>\<open>initChat\<close> builds.\<close>

definition seedHistory :: "ChatHistoryItem list option \<Rightarrow> Content list" where
  "seedHistory chatHistory =
     (case chatHistory of None \<Rightarrow> [] | Some items \<Rightarrow> chatHistoryLoop items [])"

definition initChat ::
  "('n, 'm, 'c, 'e) SDK \<Rightarrow> ('m, 'c) GeminiX \<Rightarrow> ChatHistoryItem list option \<Rightarrow>
   ('m, 'c) GeminiX \<times> ('e error + unit)" where
  "initChat sdk this chatHistory =
     (case GeminiX.model this of
        None \<Rightarrow> (this, Inl (Error ''Model not initialized''))
      | Some m \<Rightarrow>
          (case model_startChat sdk m (seedHistory chatHistory) of
             Inl e \<Rightarrow> (this, Inl (Thrown e))
           | Inr c \<Rightarrow> (this\<lparr>chat := Some c\<rparr>, Inr ())))"

subsection \<open>sendChatMessage\<close>

definition sendChatMessage ::
  "('n, 'm, 'c, 'e) SDK \<Rightarrow> ('m, 'c) GeminiX \<Rightarrow> string \<Rightarrow>
   ('s, 'e) SendMessageOptions option \<Rightarrow> 's \<Rightarrow>
   (('m, 'c) GeminiX \<times> 's) \<times> ('e error + string)" where
  "sendChatMessage sdk this inputText' options s =
     (case GeminiX.model this of
        None \<Rightarrow> ((this, s), Inl (Error ''Model not initialized''))
      | Some m \<Rightarrow>
          (case GeminiX.chat this of
             None \<Rightarrow> ((this, s), Inl (Error ''Chat not initialized''))
           | Some c \<Rightarrow>
               (let streamResponse = streamResponseOf options;
                    imageParts = imagePartsOf options
                in if streamResponse then
                     (case chat_sendMessageStream sdk c (requestOf inputText' imageParts) of
                        (c1, Inl e) \<Rightarrow> ((this\<lparr>chat := Some c1\<rparr>, s), Inl (Thrown e))
                      | (c1, Inr stream) \<Rightarrow>
                          (case consumeStream options stream [] s of
                             (s1, r) \<Rightarrow> ((this\<lparr>chat := Some c1\<rparr>, s1), r)))
                   else
                     (case chat_sendMessage sdk c (requestOf inputText' imageParts) of
                        (c1, Inl e) \<Rightarrow> ((this\<lparr>chat := Some c1\<rparr>, s), Inl (Thrown e))
                      | (c1, Inr response) \<Rightarrow>
                          ((this\<lparr>chat := Some c1\<rparr>, s), responseTextOf response)))))"

subsection \<open>countChatTokens\<close>

text \<open>The \<^verbatim>\<open>parts\<close> array that \<^verbatim>\<open>countChatTokens\<close> builds from its options.\<close>

definition chatTokenParts :: "CountChatTokensOptions option \<Rightarrow> Part list" where
  "chatTokenParts options =
     (let parts0 = [];
          parts1 =
            (case options of
               None \<Rightarrow> parts0
             | Some opts \<Rightarrow>
                 if truthy (inputText opts)
                 then parts0 @ [\<lparr>Part.text' = inputText opts, inlineData = None\<rparr>]
                 else parts0)
      in case options of
           None \<Rightarrow> parts1
         | Some opts \<Rightarrow>
             (case CountChatTokensOptions.images opts of
                None \<Rightarrow> parts1
              | Some imgs \<Rightarrow> pushImages imgs parts1))"

text \<open>\<^verbatim>\<open>contents = [...history, ...userHistory]\<close>\<close>

definition chatTokenContents :: "Content list \<Rightarrow> CountChatTokensOptions option \<Rightarrow> Content list" where
  "chatTokenContents history options =
     (let parts1 = chatTokenParts options;
          userHistory =
            (if length parts1 > 0 then [\<lparr>role = ''user'', Content.parts = Some parts1\<rparr>] else [])
      in history @ userHistory)"

definition countChatTokens ::
  "('n, 'm, 'c, 'e) SDK \<Rightarrow> ('m, 'c) GeminiX \<Rightarrow> CountChatTokensOptions option \<Rightarrow>
   'e error + int" where
  "countChatTokens sdk this options =
     (case GeminiX.model this of
        None \<Rightarrow> Inl (Error ''Model not initialized'')
      | Some m \<Rightarrow>
          (case GeminiX.chat this of
             None \<Rightarrow> Inl (Error ''Chat not initialized'')
           | Some c \<Rightarrow>
               (case chat_getHistory sdk c of
                  Inl e \<Rightarrow> Inl (Thrown e)
                | Inr history \<Rightarrow>
                    (case model_countTokens sdk m (Contents (chatTokenContents history options)) of
                       Inl e \<Rightarrow> Inl (Thrown e)
                     | Inr totalTokens \<Rightarrow> Inr totalTokens))))"

subsection \<open>getChatHistory\<close>

definition modelChatHistoryPartOf :: "Part \<Rightarrow> ModelChatHistoryPart" where
  "modelChatHistoryPartOf part =
     \<lparr>type =
        (case inlineData part of
           None \<Rightarrow> ''text''
         | Some blob \<Rightarrow> js_or_default (Some (mimeType blob)) ''image''),
      content =
        js_or_default
          (js_or (Part.text' part)
             (case inlineData part of None \<Rightarrow> None | Some blob \<Rightarrow> Some (data blob)))
          []\<rparr>"

text \<open>The inner loop; \<open>pushed\<close> is \<^verbatim>\<open>chatHistoryItem.parts\<close>.\<close>

fun partsLoop :: "Part list \<Rightarrow> ModelChatHistoryPart list \<Rightarrow> ModelChatHistoryPart list" where
  "partsLoop [] pushed = pushed"
| "partsLoop (part # rest) pushed = partsLoop rest (pushed @ [modelChatHistoryPartOf part])"

text \<open>
  The outer loop; \<open>pushed\<close> is \<^verbatim>\<open>chatHistory\<close>, the array returned in the end. The
  inner \<^verbatim>\<open>for (const part of content.parts)\<close> has no guard: on a turn without
  \<^verbatim>\<open>parts\<close> it raises a \<^verbatim>\<open>TypeError\<close>, which rejects the call.
\<close>

fun historyLoop ::
  "Content list \<Rightarrow> ModelChatHistoryItem list \<Rightarrow> 'e error + ModelChatHistoryItem list" where
  "historyLoop [] pushed = Inr pushed"
| "historyLoop (turn # rest) pushed =
     (case Content.parts turn of
        None \<Rightarrow> Inl TypeError
      | Some stored \<Rightarrow>
          historyLoop rest
            (pushed @
             [\<lparr>ModelChatHistoryItem.isUser = (role turn = ''user''),
               ModelChatHistoryItem.parts = partsLoop stored []\<rparr>]))"

definition getChatHistory ::
  "('n, 'm, 'c, 'e) SDK \<Rightarrow> ('m, 'c) GeminiX \<Rightarrow> 'e error + ModelChatHistoryItem list" where
  "getChatHistory sdk this =
     (case GeminiX.model this of
        None \<Rightarrow> Inl (Error ''Model not initialized'')
      | Some m \<Rightarrow>
          (case GeminiX.chat this of
             None \<Rightarrow> Inl (Error ''Chat not initialized'')
           | Some c \<Rightarrow>
               (case chat_getHistory sdk c of
                  Inl e \<Rightarrow> Inl (Thrown e)
                | Inr history \<Rightarrow> historyLoop history [])))"

section \<open>Sequences of calls\<close>

text \<open>One call of a public method, with its arguments.\<close>

datatype ('n, 's, 'e) Call =
    InitModel "'n ModelParams"
  | SendMessage string "('s, 'e) SendMessageOptions option"
  | CountTokens string "CountTokensOptions option"
  | InitChat "ChatHistoryItem list option"
  | SendChatMessage string "('s, 'e) SendMessageOptions option"
  | CountChatTokens "CountChatTokensOptions option"
  | GetChatHistory

text \<open>
  The adapter's state and the caller's state after one call, whether the call resolved
  or rejected.
\<close>

fun step ::
  "('n, 'm, 'c, 'e) SDK \<Rightarrow> ('m, 'c) GeminiX \<times> 's \<Rightarrow> ('n, 's, 'e) Call \<Rightarrow>
   ('m, 'c) GeminiX \<times> 's" where
  "step sdk (this, s) (InitModel params) = (fst (initModel sdk this params), s)"
| "step sdk (this, s) (SendMessage inputText' options) =
     (this, fst (sendMessage sdk this inputText' options s))"
| "step sdk (this, s) (CountTokens inputText' options) = (this, s)"
| "step sdk (this, s) (InitChat chatHistory) = (fst (initChat sdk this chatHistory), s)"
| "step sdk (this, s) (SendChatMessage inputText' options) =
     fst (sendChatMessage sdk this inputText' options s)"
| "step sdk (this, s) (CountChatTokens options) = (this, s)"
| "step sdk (this, s) GetChatHistory = (this, s)"

fun run ::
  "('n, 'm, 'c, 'e) SDK \<Rightarrow> ('m, 'c) GeminiX \<times> 's \<Rightarrow> ('n, 's, 'e) Call list \<Rightarrow>
   ('m, 'c) GeminiX \<times> 's" where
  "run sdk st [] = st"
| "run sdk st (call # calls) = run sdk (step sdk st call) calls"

section \<open>A conversation double\<close>

text \<open>
  A small SDK on which the operations can be evaluated: the model handle is the model's
  name, a conversation handle is its transcript, a single-shot request answers
  \<open>''Hello world''\<close> and a streamed one answers the same text in two chunks. A
  conversation appends the text of the request and the answer to its transcript.
\<close>

definition requestText :: "RequestElem list \<Rightarrow> string" where
  "requestText request = (case request of Str t # rest \<Rightarrow> t | _ \<Rightarrow> [])"

definition exchange :: "Content list \<Rightarrow> RequestElem list \<Rightarrow> Content list" where
  "exchange transcript request =
     transcript @
     [\<lparr>role = ''user'', Content.parts = Some [TextPart (requestText request)]\<rparr>,
      \<lparr>role = ''model'', Content.parts = Some [TextPart ''Hello world'']\<rparr>]"

definition doubleSDK :: "(nat, string, Content list, string) SDK" where
  "doubleSDK =
     \<lparr>ai_getGenerativeModel = (\<lambda>ai params. Inr (VendorModelParams.model params)),
      model_generateContent = (\<lambda>m request. Inr (Inr ''Hello world'')),
      model_generateContentStream =
        (\<lambda>m request. Inr (Chunk (Inr ''Hello'') (Chunk (Inr '' world'') End))),
      model_countTokens =
        (\<lambda>m request.
           Inr (case request of
                  Request elems \<Rightarrow> int (length elems)
                | Contents turns \<Rightarrow> int (length turns))),
      model_startChat = (\<lambda>m history. Inr history),
      chat_sendMessage = (\<lambda>c request. (exchange c request, Inr (Inr ''Hello world''))),
      chat_sendMessageStream =
        (\<lambda>c request.
           (exchange c request, Inr (Chunk (Inr ''Hello'') (Chunk (Inr '' world'') End)))),
      chat_getHistory = (\<lambda>c. Inr c)\<rparr>"

text \<open>A callback that records the chunk it is called with and never throws.\<close>

definition recorder :: "(string list, 'e) Callback" where
  "recorder chunkText calls = (calls @ [chunkText], None)"

section \<open>Calling a callback once per chunk, in order\<close>

text \<open>
  The reference that the streaming loop is compared with: the callback is called once
  with each chunk text, from the first to the last, every call starting in the state
  that the call before it left; a call that throws is the last one. The result is the
  caller's state in the end and the thrown value, if any.
\<close>

fun calledInOrder :: "('s, 'e) Callback \<Rightarrow> string list \<Rightarrow> 's \<Rightarrow> 's \<times> 'e option" where
  "calledInOrder callback [] s = (s, None)"
| "calledInOrder callback (chunkText # rest) s =
     (case callback chunkText s of
        (s1, Some e) \<Rightarrow> (s1, Some e)
      | (s1, None) \<Rightarrow> calledInOrder callback rest s1)"

section \<open>The enum members as strings\<close>

lemmas SafetySettingLevel_defs =
  SafetySettingLevel_NONE_def SafetySettingLevel_ONLY_HIGH_def
  SafetySettingLevel_MEDIUM_AND_ABOVE_def SafetySettingLevel_LOW_AND_ABOVE_def
  SafetySettingLevel_UNSPECIFIED_def

lemmas SafetySettingHarmCategory_defs =
  SafetySettingHarmCategory_HARASSMENT_def SafetySettingHarmCategory_HATE_SPEECH_def
  SafetySettingHarmCategory_SEXUALLY_EXPLICIT_def
  SafetySettingHarmCategory_DANGEROUS_CONTENT_def
  SafetySettingHarmCategory_UNSPECIFIED_def

section \<open>The loops as list functions\<close>

lemma pushImages_append: "pushImages imgs pushed = pushed @ map InlineDataPart imgs"
  by (induction imgs arbitrary: pushed) simp_all

lemma chatHistoryLoop_append:
  "chatHistoryLoop items pushed = pushed @ map modelChatHistoryItemOf items"
  by (induction items arbitrary: pushed) simp_all

lemma partsLoop_append: "partsLoop ps pushed = pushed @ map modelChatHistoryPartOf ps"
  by (induction ps arbitrary: pushed) simp_all

lemma historyLoop_resolves:
  "\<forall>turn \<in> set turns. Content.parts turn \<noteq> None \<Longrightarrow>
   historyLoop turns pushed =
     Inr (pushed @
          map (\<lambda>turn. \<lparr>ModelChatHistoryItem.isUser = (role turn = ''user''),
                        ModelChatHistoryItem.parts =
                          map modelChatHistoryPartOf
                            (case Content.parts turn of None \<Rightarrow> [] | Some stored \<Rightarrow> stored)\<rparr>)
            turns)"
  by (induction turns arbitrary: pushed) (auto simp add: partsLoop_append)

lemma historyLoop_rejects:
  "(historyLoop turns pushed = Inl err) =
     (err = TypeError \<and> (\<exists>turn \<in> set turns. Content.parts turn = None))"
  by (induction turns arbitrary: pushed) (auto split: option.splits)

section \<open>Properties of the enum mappings\<close>

text \<open>
  Claim C4. The two enum mappings are total functions without effects: each member of
  \<^verbatim>\<open>SafetySettingHarmCategory\<close> and of \<^verbatim>\<open>SafetySettingLevel\<close> has exactly one image, and
  every other input, like \<^verbatim>\<open>UNSPECIFIED\<close> itself, is sent to the vendor's unspecified
  member. Nothing is thrown: both functions are plain values of their input.
\<close>

theorem enum_mappings_total:
  "mapHarmCategory SafetySettingHarmCategory_HARASSMENT = HARM_CATEGORY_HARASSMENT
   \<and> mapHarmCategory SafetySettingHarmCategory_HATE_SPEECH = HARM_CATEGORY_HATE_SPEECH
   \<and> mapHarmCategory SafetySettingHarmCategory_SEXUALLY_EXPLICIT = HARM_CATEGORY_SEXUALLY_EXPLICIT
   \<and> mapHarmCategory SafetySettingHarmCategory_DANGEROUS_CONTENT = HARM_CATEGORY_DANGEROUS_CONTENT
   \<and> mapHarmCategory SafetySettingHarmCategory_UNSPECIFIED = HARM_CATEGORY_UNSPECIFIED
   \<and> (harmCategory \<notin> {SafetySettingHarmCategory_HARASSMENT, SafetySettingHarmCategory_HATE_SPEECH,
          SafetySettingHarmCategory_SEXUALLY_EXPLICIT, SafetySettingHarmCategory_DANGEROUS_CONTENT}
        \<longrightarrow> mapHarmCategory harmCategory = HARM_CATEGORY_UNSPECIFIED)
   \<and> (\<exists>!v. mapHarmCategory harmCategory = v)
   \<and> mapSafetySettingLevel SafetySettingLevel_NONE = BLOCK_NONE
   \<and> mapSafetySettingLevel SafetySettingLevel_ONLY_HIGH = BLOCK_ONLY_HIGH
   \<and> mapSafetySettingLevel SafetySettingLevel_MEDIUM_AND_ABOVE = BLOCK_MEDIUM_AND_ABOVE
   \<and> mapSafetySettingLevel SafetySettingLevel_UNSPECIFIED = HARM_BLOCK_THRESHOLD_UNSPECIFIED
   \<and> (safetySettingLevel \<notin> {SafetySettingLevel_NONE, SafetySettingLevel_ONLY_HIGH,
          SafetySettingLevel_MEDIUM_AND_ABOVE, SafetySettingLevel_LOW_AND_ABOVE}
        \<longrightarrow> mapSafetySettingLevel safetySettingLevel = HARM_BLOCK_THRESHOLD_UNSPECIFIED)
   \<and> (\<exists>!v. mapSafetySettingLevel safetySettingLevel = v)"
  by (simp add: mapHarmCategory_def mapSafetySettingLevel_def SafetySettingHarmCategory_defs
      SafetySettingLevel_defs)

theorem enum_mappings_total_witness:
  "''VIOLENCE'' \<notin> {SafetySettingHarmCategory_HARASSMENT, SafetySettingHarmCategory_HATE_SPEECH,
          SafetySettingHarmCategory_SEXUALLY_EXPLICIT, SafetySettingHarmCategory_DANGEROUS_CONTENT}
   \<and> mapHarmCategory ''VIOLENCE'' = HARM_CATEGORY_UNSPECIFIED
   \<and> ''HIGHEST'' \<notin> {SafetySettingLevel_NONE, SafetySettingLevel_ONLY_HIGH,
          SafetySettingLevel_MEDIUM_AND_ABOVE, SafetySettingLevel_LOW_AND_ABOVE}
   \<and> mapSafetySettingLevel ''HIGHEST'' = HARM_BLOCK_THRESHOLD_UNSPECIFIED"
  using enum_mappings_total [of "''VIOLENCE''" "''HIGHEST''"]
  by (simp add: SafetySettingHarmCategory_defs SafetySettingLevel_defs)

text \<open>
  Claim C5. The level mapping is not injective on the named levels:
  \<^verbatim>\<open>LOW_AND_ABOVE\<close> and \<^verbatim>\<open>MEDIUM_AND_ABOVE\<close> are different levels with the same image
  \<^verbatim>\<open>BLOCK_MEDIUM_AND_ABOVE\<close>, and no input at all is mapped to the vendor's
  \<^verbatim>\<open>BLOCK_LOW_AND_ABOVE\<close>.
\<close>

theorem level_mapping_not_injective:
  "mapSafetySettingLevel SafetySettingLevel_LOW_AND_ABOVE = BLOCK_MEDIUM_AND_ABOVE
   \<and> mapSafetySettingLevel SafetySettingLevel_MEDIUM_AND_ABOVE = BLOCK_MEDIUM_AND_ABOVE
   \<and> SafetySettingLevel_LOW_AND_ABOVE \<noteq> SafetySettingLevel_MEDIUM_AND_ABOVE
   \<and> mapSafetySettingLevel safetySettingLevel \<noteq> BLOCK_LOW_AND_ABOVE"
  by (simp add: mapSafetySettingLevel_def SafetySettingLevel_defs)

section \<open>The SDK double, call by call\<close>

lemma doubleSDK_simps:
  "ai_getGenerativeModel doubleSDK ai params = Inr (VendorModelParams.model params)"
  "model_generateContent doubleSDK m request = Inr (Inr ''Hello world'')"
  "model_generateContentStream doubleSDK m request =
     Inr (Chunk (Inr ''Hello'') (Chunk (Inr '' world'') End))"
  "model_countTokens doubleSDK m (Request elems) = Inr (int (length elems))"
  "model_countTokens doubleSDK m (Contents turns) = Inr (int (length turns))"
  "model_startChat doubleSDK m history = Inr history"
  "chat_sendMessage doubleSDK c request = (exchange c request, Inr (Inr ''Hello world''))"
  "chat_sendMessageStream doubleSDK c request =
     (exchange c request, Inr (Chunk (Inr ''Hello'') (Chunk (Inr '' world'') End)))"
  "chat_getHistory doubleSDK c = Inr c"
  by (simp_all add: doubleSDK_def)

lemma imagePartsOf_map:
  "imagePartsOf options =
     map InlineDataPart
       (case options of None \<Rightarrow> [] | Some opts \<Rightarrow> imagesOrEmpty (SendMessageOptions.images opts))"
  by (simp add: imagePartsOf_def pushImages_append split: option.splits)

section \<open>The parts of a request\<close>

text \<open>
  Claim C7. With a model handle, \<^verbatim>\<open>sendMessage\<close> (in both request forms) and
  \<^verbatim>\<open>countTokens\<close> hand the SDK the input text first and then one inline-data part
  per supplied image, in the order of the input; for the images \<open>[A, B, C]\<close> the parts
  after the text are those of \<open>A\<close>, \<open>B\<close>, \<open>C\<close>.
\<close>

theorem request_is_text_then_images:
  "(GeminiX.model this = Some m \<longrightarrow>
      sendMessage sdk this inputText' (options :: ('s, 'e) SendMessageOptions option) s =
        (let request =
               Str inputText' #
               map (\<lambda>blob. Prt (InlineDataPart blob))
                 (case options of
                    None \<Rightarrow> []
                  | Some opts \<Rightarrow> imagesOrEmpty (SendMessageOptions.images opts))
         in if streamResponseOf options then
              (case model_generateContentStream sdk m request of
                 Inl e \<Rightarrow> (s, Inl (Thrown e))
               | Inr stream \<Rightarrow> consumeStream options stream [] s)
            else
              (case model_generateContent sdk m request of
                 Inl e \<Rightarrow> (s, Inl (Thrown e))
               | Inr response \<Rightarrow> (s, responseTextOf response))))
   \<and> (GeminiX.model this = Some m \<longrightarrow>
      countTokens sdk this inputText' countOptions =
        (let request =
               Str inputText' #
               map (\<lambda>blob. Prt (InlineDataPart blob))
                 (case countOptions of
                    None \<Rightarrow> []
                  | Some opts \<Rightarrow> imagesOrEmpty (CountTokensOptions.images opts))
         in case model_countTokens sdk m (Request request) of
              Inl e \<Rightarrow> Inl (Thrown e)
            | Inr totalTokens \<Rightarrow> Inr totalTokens))
   \<and> requestOf inputText' (imagePartsOf (Some \<lparr>SendMessageOptions.images = Some [A, B, C], onResponseChunk = (callback :: ('s, 'e) Callback option)\<rparr>)) =
       [Str inputText', Prt (InlineDataPart A), Prt (InlineDataPart B), Prt (InlineDataPart C)]"
  by (simp add: sendMessage_def countTokens_def requestOf_def imagePartsOf_map pushImages_append
      imagesOrEmpty_def Let_def comp_def split: option.splits)

theorem request_is_text_then_images_witness:
  "GeminiX.model \<lparr>generativeAI = None, model = Some ''gemini-pro'', chat = (None :: Content list option)\<rparr> = Some ''gemini-pro''
   \<and> sendMessage doubleSDK \<lparr>generativeAI = None, model = Some ''gemini-pro'', chat = None\<rparr> ''hi''
        (Some \<lparr>SendMessageOptions.images = Some [\<lparr>mimeType = ''image/png'', data = ''QQ==''\<rparr>], onResponseChunk = None\<rparr>) (0::nat)
       = (0, Inr ''Hello world'')
   \<and> countTokens doubleSDK \<lparr>generativeAI = None, model = Some ''gemini-pro'', chat = None\<rparr> ''hi''
        (Some \<lparr>CountTokensOptions.images = Some [\<lparr>mimeType = ''image/png'', data = ''QQ==''\<rparr>, \<lparr>mimeType = ''image/jpeg'', data = ''Qg==''\<rparr>]\<rparr>)
       = Inr 3"
  using request_is_text_then_images
    [where this = "\<lparr>generativeAI = None, model = Some ''gemini-pro'', chat = None\<rparr>"
       and m = "''gemini-pro''" and sdk = doubleSDK and inputText' = "''hi''"
       and options = "Some \<lparr>SendMessageOptions.images = Some [\<lparr>mimeType = ''image/png'', data = ''QQ==''\<rparr>], onResponseChunk = None\<rparr>"
       and s = "0::nat" and A = "\<lparr>mimeType = [], data = []\<rparr>"
       and B = "\<lparr>mimeType = [], data = []\<rparr>" and C = "\<lparr>mimeType = [], data = []\<rparr>"
       and callback = None
       and countOptions = "Some \<lparr>CountTokensOptions.images = Some [\<lparr>mimeType = ''image/png'', data = ''QQ==''\<rparr>, \<lparr>mimeType = ''image/jpeg'', data = ''Qg==''\<rparr>]\<rparr>"]
  by (simp add: doubleSDK_simps streamResponseOf_def responseTextOf_def imagesOrEmpty_def Let_def)

section \<open>Counting the tokens of a conversation\<close>

text \<open>
  Claim C6. \<^verbatim>\<open>countChatTokens\<close> counts the retrieved transcript followed by exactly
  one synthetic \<open>''user''\<close> turn if its options yield at least one part (a non-empty
  \<^verbatim>\<open>inputText\<close> or an image), and the transcript alone if they yield none; the
  options \<^verbatim>\<open>{}\<close> and absent options yield none.
\<close>

theorem countChatTokens_synthetic_turn:
  "chatTokenParts options =
     (case options of
        None \<Rightarrow> []
      | Some opts \<Rightarrow>
          (case inputText opts of
             None \<Rightarrow> []
           | Some t \<Rightarrow> if t = [] then [] else [TextPart t]) @
          map InlineDataPart (imagesOrEmpty (CountChatTokensOptions.images opts)))
   \<and> chatTokenContents history options =
       (if chatTokenParts options = [] then history
        else history @ [\<lparr>role = ''user'', Content.parts = Some (chatTokenParts options)\<rparr>])
   \<and> chatTokenContents history None = history
   \<and> chatTokenContents history (Some \<lparr>inputText = None, CountChatTokensOptions.images = None\<rparr>)
       = history
   \<and> (GeminiX.model this = Some m \<and> GeminiX.chat this = Some c
        \<and> chat_getHistory sdk c = Inr history \<longrightarrow>
      countChatTokens sdk this options =
        (case model_countTokens sdk m (Contents (chatTokenContents history options)) of
           Inl e \<Rightarrow> Inl (Thrown e)
         | Inr totalTokens \<Rightarrow> Inr totalTokens))"
  by (simp add: chatTokenParts_def chatTokenContents_def countChatTokens_def pushImages_append
      imagesOrEmpty_def truthy_def TextPart_def Let_def split: option.splits)

theorem countChatTokens_synthetic_turn_witness:
  "GeminiX.model \<lparr>generativeAI = None, model = Some ''gemini-pro'',
       chat = Some [\<lparr>role = ''user'', Content.parts = Some [TextPart ''hi'']\<rparr>]\<rparr> = Some ''gemini-pro''
   \<and> chat_getHistory doubleSDK [\<lparr>role = ''user'', Content.parts = Some [TextPart ''hi'']\<rparr>]
       = Inr [\<lparr>role = ''user'', Content.parts = Some [TextPart ''hi'']\<rparr>]
   \<and> countChatTokens doubleSDK
        \<lparr>generativeAI = None, model = Some ''gemini-pro'',
         chat = Some [\<lparr>role = ''user'', Content.parts = Some [TextPart ''hi'']\<rparr>]\<rparr>
        (Some \<lparr>inputText = None, CountChatTokensOptions.images = None\<rparr>) = Inr 1
   \<and> countChatTokens doubleSDK
        \<lparr>generativeAI = None, model = Some ''gemini-pro'',
         chat = Some [\<lparr>role = ''user'', Content.parts = Some [TextPart ''hi'']\<rparr>]\<rparr>
        (Some \<lparr>inputText = Some ''more'', CountChatTokensOptions.images = None\<rparr>) = Inr 2"
  using countChatTokens_synthetic_turn
    [where this = "\<lparr>generativeAI = None, model = Some ''gemini-pro'',
                    chat = Some [\<lparr>role = ''user'', Content.parts = Some [TextPart ''hi'']\<rparr>]\<rparr>"
       and m = "''gemini-pro''" and c = "[\<lparr>role = ''user'', Content.parts = Some [TextPart ''hi'']\<rparr>]"
       and sdk = doubleSDK and history = "[\<lparr>role = ''user'', Content.parts = Some [TextPart ''hi'']\<rparr>]"
       and options = "Some \<lparr>inputText = None, CountChatTokensOptions.images = None\<rparr>"]
    countChatTokens_synthetic_turn
    [where this = "\<lparr>generativeAI = None, model = Some ''gemini-pro'',
                    chat = Some [\<lparr>role = ''user'', Content.parts = Some [TextPart ''hi'']\<rparr>]\<rparr>"
       and m = "''gemini-pro''" and c = "[\<lparr>role = ''user'', Content.parts = Some [TextPart ''hi'']\<rparr>]"
       and sdk = doubleSDK and history = "[\<lparr>role = ''user'', Content.parts = Some [TextPart ''hi'']\<rparr>]"
       and options = "Some \<lparr>inputText = Some ''more'', CountChatTokensOptions.images = None\<rparr>"]
  by (simp add: doubleSDK_simps imagesOrEmpty_def)

section \<open>The seed history of a conversation\<close>

lemma modelChatHistoryItemOf_parts:
  "Content.parts (modelChatHistoryItemOf item) =
     Some ((case ChatHistoryItem.text' item of
              None \<Rightarrow> []
            | Some t \<Rightarrow> if t = [] then [] else [TextPart t]) @
           map InlineDataPart (imagesOrEmpty (ChatHistoryItem.images item)))"
  by (simp add: modelChatHistoryItemOf_def pushImages_append imagesOrEmpty_def truthy_def
      TextPart_def Let_def split: option.splits)

text \<open>
  The claim C8 reads: every item becomes a turn whose parts are the text part if the
  text is present, followed by the image parts. An item whose text is the empty string
  has a text, but \<^verbatim>\<open>if (chatHistoryItem.text)\<close> is false for it and its turn gets no
  text part.
\<close>

theorem initChat_empty_text_counterexample:
  "initChat doubleSDK \<lparr>generativeAI = None, model = Some ''gemini-pro'', chat = None\<rparr>
     (Some [\<lparr>ChatHistoryItem.isUser = True, text' = Some [], images = None\<rparr>])
     = (\<lparr>generativeAI = None, model = Some ''gemini-pro'',
         chat = Some [\<lparr>role = ''user'', Content.parts = Some []\<rparr>]\<rparr>,
        Inr ())
   \<and> seedHistory (Some [\<lparr>ChatHistoryItem.isUser = True, text' = Some [], images = None\<rparr>])
     \<noteq> [\<lparr>role = ''user'', Content.parts = Some [TextPart []]\<rparr>]"
  by (simp add: initChat_def doubleSDK_simps seedHistory_def modelChatHistoryItemOf_def
      truthy_def Let_def)

text \<open>
  Claim C8, amended. \<^verbatim>\<open>initChat\<close> starts the conversation with one turn per item, in
  the order of the input list; the turn's role is \<open>''user''\<close> if \<^verbatim>\<open>isUser\<close> and
  \<open>''model''\<close> otherwise, and its parts are the text part if the text is present and
  not empty, followed by one inline-data part per image in input order.
\<close>

theorem initChat_seed_history:
  "seedHistory None = []
   \<and> seedHistory (Some items) = map modelChatHistoryItemOf items
   \<and> role (modelChatHistoryItemOf item) =
       (if ChatHistoryItem.isUser item then ''user'' else ''model'')
   \<and> Content.parts (modelChatHistoryItemOf item) =
       Some ((case ChatHistoryItem.text' item of
                None \<Rightarrow> []
              | Some t \<Rightarrow> if t = [] then [] else [TextPart t]) @
             map InlineDataPart (imagesOrEmpty (ChatHistoryItem.images item)))
   \<and> (GeminiX.model this = Some m \<longrightarrow>
        initChat sdk this chatHistory =
          (case model_startChat sdk m (seedHistory chatHistory) of
             Inl e \<Rightarrow> (this, Inl (Thrown e))
           | Inr c \<Rightarrow> (this\<lparr>chat := Some c\<rparr>, Inr ())))"
  by (simp add: seedHistory_def chatHistoryLoop_append modelChatHistoryItemOf_parts initChat_def)
    (simp add: modelChatHistoryItemOf_def Let_def)

theorem initChat_seed_history_witness:
  "GeminiX.model \<lparr>generativeAI = None, model = Some ''gemini-pro'', chat = None\<rparr>
     = Some ''gemini-pro''
   \<and> initChat doubleSDK \<lparr>generativeAI = None, model = Some ''gemini-pro'', chat = None\<rparr>
        (Some [\<lparr>ChatHistoryItem.isUser = True, text' = Some ''hi'', images = None\<rparr>,
               \<lparr>ChatHistoryItem.isUser = False, text' = None,
                images = Some [\<lparr>mimeType = ''image/png'', data = ''QQ==''\<rparr>]\<rparr>])
     = (\<lparr>generativeAI = None, model = Some ''gemini-pro'',
         chat = Some [\<lparr>role = ''user'', Content.parts = Some [TextPart ''hi'']\<rparr>,
                      \<lparr>role = ''model'',
                       Content.parts =
                         Some [InlineDataPart \<lparr>mimeType = ''image/png'', data = ''QQ==''\<rparr>]\<rparr>]\<rparr>,
        Inr ())"
  using initChat_seed_history
    [where this = "\<lparr>generativeAI = None, model = Some ''gemini-pro'', chat = None\<rparr>"
       and m = "''gemini-pro''" and sdk = doubleSDK
       and items = "[]" and item = "\<lparr>ChatHistoryItem.isUser = True, text' = None, images = None\<rparr>"
       and chatHistory = "Some [\<lparr>ChatHistoryItem.isUser = True, text' = Some ''hi'', images = None\<rparr>,
               \<lparr>ChatHistoryItem.isUser = False, text' = None,
                images = Some [\<lparr>mimeType = ''image/png'', data = ''QQ==''\<rparr>]\<rparr>]"]
  by (simp add: doubleSDK_simps seedHistory_def modelChatHistoryItemOf_def truthy_def
      TextPart_def Let_def)

section \<open>Reading the history back\<close>

text \<open>
  The claim C9 reads: the type of a returned part is the part's mime-type if it is an
  inline-data part. For an inline-data part whose mime-type is the empty string the
  code returns the type \<open>''image''\<close>: \<^verbatim>\<open>part.inlineData.mimeType || "image"\<close>.
\<close>

theorem getChatHistory_empty_mimeType_counterexample:
  "getChatHistory doubleSDK
     \<lparr>generativeAI = None, model = Some ''gemini-pro'',
      chat = Some [\<lparr>role = ''user'',
                    Content.parts = Some [InlineDataPart \<lparr>mimeType = [], data = ''QUJD''\<rparr>]\<rparr>]\<rparr>
     = Inr [\<lparr>ModelChatHistoryItem.isUser = True,
             ModelChatHistoryItem.parts = [\<lparr>type = ''image'', content = ''QUJD''\<rparr>]\<rparr>]
   \<and> type (modelChatHistoryPartOf (InlineDataPart \<lparr>mimeType = [], data = ''QUJD''\<rparr>))
     \<noteq> mimeType \<lparr>mimeType = [], data = ''QUJD''\<rparr>"
  by (simp add: getChatHistory_def doubleSDK_simps modelChatHistoryPartOf_def js_or_def
      js_or_default_def truthy_def InlineDataPart_def)

text \<open>
  Claim C9, amended. For a stored transcript in which every turn has its parts,
  \<^verbatim>\<open>getChatHistory\<close> returns one item per stored turn and one part per stored part,
  both in stored order, with \<^verbatim>\<open>isUser\<close> true exactly for the role \<open>''user''\<close>. The
  type of a part is its mime-type if it has inline data with a non-empty mime-type,
  \<open>''image''\<close> if it has inline data with an empty mime-type, and \<open>''text''\<close> otherwise.
  Its content is its text if that is present and not empty, else its inline-data
  payload if it has inline data, else the empty string; for a part that is only a text
  or only inline data this is the text or the payload.
\<close>

theorem getChatHistory_mapping:
  "(GeminiX.model this = Some m \<and> GeminiX.chat this = Some c
      \<and> chat_getHistory sdk c = Inr history
      \<and> (\<forall>turn \<in> set history. Content.parts turn \<noteq> None) \<longrightarrow>
      getChatHistory sdk this =
        Inr (map (\<lambda>turn. \<lparr>ModelChatHistoryItem.isUser = (role turn = ''user''),
                            ModelChatHistoryItem.parts =
                              map modelChatHistoryPartOf
                                (case Content.parts turn of
                                   None \<Rightarrow> []
                                 | Some stored \<Rightarrow> stored)\<rparr>)
               history))
   \<and> type (modelChatHistoryPartOf part) =
       (case inlineData part of
          None \<Rightarrow> ''text''
        | Some blob \<Rightarrow> if mimeType blob = [] then ''image'' else mimeType blob)
   \<and> content (modelChatHistoryPartOf part) =
       (case Part.text' part of
          None \<Rightarrow> (case inlineData part of None \<Rightarrow> [] | Some blob \<Rightarrow> data blob)
        | Some t \<Rightarrow>
            if t = [] then (case inlineData part of None \<Rightarrow> [] | Some blob \<Rightarrow> data blob)
            else t)
   \<and> modelChatHistoryPartOf (TextPart t) = \<lparr>type = ''text'', content = t\<rparr>
   \<and> content (modelChatHistoryPartOf (InlineDataPart blob)) = data blob"
proof -
  have turns: "GeminiX.model this = Some m \<and> GeminiX.chat this = Some c
      \<and> chat_getHistory sdk c = Inr history
      \<and> (\<forall>turn \<in> set history. Content.parts turn \<noteq> None) \<longrightarrow>
      getChatHistory sdk this =
        Inr (map (\<lambda>turn. \<lparr>ModelChatHistoryItem.isUser = (role turn = ''user''),
                            ModelChatHistoryItem.parts =
                              map modelChatHistoryPartOf
                                (case Content.parts turn of
                                   None \<Rightarrow> []
                                 | Some stored \<Rightarrow> stored)\<rparr>)
               history)"
    using historyLoop_resolves [of history "[]"]
    by (auto simp add: getChatHistory_def)
  have parts: "type (modelChatHistoryPartOf part) =
       (case inlineData part of
          None \<Rightarrow> ''text''
        | Some blob \<Rightarrow> if mimeType blob = [] then ''image'' else mimeType blob)
   \<and> content (modelChatHistoryPartOf part) =
       (case Part.text' part of
          None \<Rightarrow> (case inlineData part of None \<Rightarrow> [] | Some blob \<Rightarrow> data blob)
        | Some t \<Rightarrow>
            if t = [] then (case inlineData part of None \<Rightarrow> [] | Some blob \<Rightarrow> data blob)
            else t)
   \<and> modelChatHistoryPartOf (TextPart t) = \<lparr>type = ''text'', content = t\<rparr>
   \<and> content (modelChatHistoryPartOf (InlineDataPart blob)) = data blob"
    by (simp add: modelChatHistoryPartOf_def js_or_def js_or_default_def truthy_def
        TextPart_def InlineDataPart_def split: option.splits)
  from turns parts show ?thesis by blast
qed

theorem getChatHistory_mapping_witness:
  "GeminiX.model \<lparr>generativeAI = None, model = Some ''gemini-pro'',
       chat = Some [\<lparr>role = ''model'', Content.parts = Some [TextPart ''hi'',
                       InlineDataPart \<lparr>mimeType = ''image/png'', data = ''QQ==''\<rparr>]\<rparr>]\<rparr>
     = Some ''gemini-pro''
   \<and> Content.parts \<lparr>role = ''model'', Content.parts = Some [TextPart ''hi'',
                       InlineDataPart \<lparr>mimeType = ''image/png'', data = ''QQ==''\<rparr>]\<rparr> \<noteq> None
   \<and> getChatHistory doubleSDK
        \<lparr>generativeAI = None, model = Some ''gemini-pro'',
         chat = Some [\<lparr>role = ''model'', Content.parts = Some [TextPart ''hi'',
                       InlineDataPart \<lparr>mimeType = ''image/png'', data = ''QQ==''\<rparr>]\<rparr>]\<rparr>
     = Inr [\<lparr>ModelChatHistoryItem.isUser = False,
             ModelChatHistoryItem.parts =
               [\<lparr>type = ''text'', content = ''hi''\<rparr>,
                \<lparr>type = ''image/png'', content = ''QQ==''\<rparr>]\<rparr>]"
  using getChatHistory_mapping
    [where this = "\<lparr>generativeAI = None, model = Some ''gemini-pro'',
         chat = Some [\<lparr>role = ''model'', Content.parts = Some [TextPart ''hi'',
                       InlineDataPart \<lparr>mimeType = ''image/png'', data = ''QQ==''\<rparr>]\<rparr>]\<rparr>"
       and m = "''gemini-pro''" and sdk = doubleSDK
       and c = "[\<lparr>role = ''model'', Content.parts = Some [TextPart ''hi'',
                       InlineDataPart \<lparr>mimeType = ''image/png'', data = ''QQ==''\<rparr>]\<rparr>]"
       and history = "[\<lparr>role = ''model'', Content.parts = Some [TextPart ''hi'',
                       InlineDataPart \<lparr>mimeType = ''image/png'', data = ''QQ==''\<rparr>]\<rparr>]"
       and part = "TextPart []" and t = "[]" and blob = "\<lparr>mimeType = [], data = []\<rparr>"]
  by (simp add: doubleSDK_simps modelChatHistoryPartOf_def js_or_def js_or_default_def
      truthy_def TextPart_def InlineDataPart_def)

section \<open>Streaming\<close>

lemma consumeStream_quiet:
  assumes "onResponseChunk opts = Some callback" and "\<And>t s. snd (callback t s) = None"
  shows "consumeStream (Some opts) stream responseText s =
           (foldl (\<lambda>s t. fst (callback t s)) s (received stream),
            case failure stream of
              None \<Rightarrow> Inr (responseText @ concat (received stream))
            | Some e \<Rightarrow> Inl (Thrown e))"
proof (induction stream arbitrary: responseText s)
  case End
  show ?case by simp
next
  case (Abort e)
  show ?case by simp
next
  case (Chunk chunk rest)
  show ?case
  proof (cases chunk)
    case (Inl e)
    then show ?thesis by simp
  next
    case (Inr chunkText)
    have call: "callOnResponseChunk (Some opts) chunkText s = (fst (callback chunkText s), None)"
      using assms(1) assms(2) [of chunkText s]
      by (simp add: callOnResponseChunk_def prod_eq_iff)
    show ?thesis
      using Inr call Chunk.IH by (simp split: option.splits)
  qed
qed

lemma consumeStream_resolved:
  "consumeStream options stream responseText s = (s1, Inr t) \<Longrightarrow>
     t = responseText @ concat (received stream) \<and> failure stream = None"
proof (induction stream arbitrary: responseText s)
  case End
  then show ?case by simp
next
  case (Abort e)
  then show ?case by simp
next
  case (Chunk chunk rest)
  show ?case
  proof (cases chunk)
    case (Inl e)
    with Chunk.prems show ?thesis by simp
  next
    case (Inr chunkText)
    obtain s2 thrown where call: "callOnResponseChunk options chunkText s = (s2, thrown)"
      by (cases "callOnResponseChunk options chunkText s")
    show ?thesis
    proof (cases thrown)
      case None
      with Chunk.prems Inr call
      have "consumeStream options rest (responseText @ chunkText) s2 = (s1, Inr t)"
        by simp
      from Chunk.IH [OF this] Inr show ?thesis by simp
    next
      case (Some e)
      with Chunk.prems Inr call show ?thesis by simp
    qed
  qed
qed

lemma consumeStream_no_Error: "snd (consumeStream options stream responseText s) \<noteq> Inl (Error msg)"
proof (induction stream arbitrary: responseText s)
  case End
  show ?case by simp
next
  case (Abort e)
  show ?case by simp
next
  case (Chunk chunk rest)
  then show ?case
    by (cases chunk) (simp_all split: prod.splits option.splits)
qed

lemma streamResponseOf_Some:
  "onResponseChunk opts = Some callback \<Longrightarrow> streamResponseOf (Some opts) = True"
  by (simp add: streamResponseOf_def)

lemma consumeStream_calledInOrder:
  assumes "onResponseChunk opts = Some callback"
  shows "consumeStream (Some opts) stream responseText s =
           (case calledInOrder callback (received stream) s of
              (s1, Some e) \<Rightarrow> (s1, Inl (Thrown e))
            | (s1, None) \<Rightarrow>
                (s1, case failure stream of
                       None \<Rightarrow> Inr (responseText @ concat (received stream))
                     | Some e \<Rightarrow> Inl (Thrown e)))"
proof (induction stream arbitrary: responseText s)
  case End
  show ?case by simp
next
  case (Abort e)
  show ?case by simp
next
  case (Chunk chunk rest)
  show ?case
  proof (cases chunk)
    case (Inl e)
    then show ?thesis by simp
  next
    case (Inr chunkText)
    obtain s1 thrown where call: "callback chunkText s = (s1, thrown)"
      by (cases "callback chunkText s")
    have invoked: "callOnResponseChunk (Some opts) chunkText s = (s1, thrown)"
      using assms call by (simp add: callOnResponseChunk_def)
    show ?thesis
    proof (cases thrown)
      case None
      with Inr call invoked Chunk.IH [of "responseText @ chunkText" s1] show ?thesis
        by (simp split: prod.splits option.splits)
    next
      case (Some e)
      with Inr call invoked show ?thesis by simp
    qed
  qed
qed

lemma calledInOrder_recorder: "calledInOrder recorder chunkTexts calls = (calls @ chunkTexts, None)"
  by (induction chunkTexts arbitrary: calls) (simp_all add: recorder_def)

text \<open>
  Claim C2. For every call of \<^verbatim>\<open>sendMessage\<close> or \<^verbatim>\<open>sendChatMessage\<close> with
  \<^verbatim>\<open>onResponseChunk\<close> supplied, whatever the callback does, the callback is called
  once with the text of every chunk read from the stream, in arrival order, up to and
  including a call that throws; a callback that records its arguments ends with
  exactly the chunk texts, in order. If no call throws and the stream ends without a
  failure, the call resolves to the concatenation of all chunk texts in arrival order.
  Otherwise it rejects with what the callback, the stream or a chunk's \<^verbatim>\<open>text()\<close>
  threw.
\<close>

theorem streaming_delivers_every_chunk_in_order:
  assumes "onResponseChunk opts = Some (callback :: ('s, 'e) Callback)"
  shows "(GeminiX.model this = Some m
          \<and> model_generateContentStream (sdk :: ('n, 'm, 'c, 'e) SDK) m
                (requestOf inputText' (imagePartsOf (Some opts)))
              = Inr stream \<longrightarrow>
          sendMessage sdk this inputText' (Some opts) s =
            (case calledInOrder callback (received stream) s of
               (s1, Some e) \<Rightarrow> (s1, Inl (Thrown e))
             | (s1, None) \<Rightarrow>
                 (s1, case failure stream of
                        None \<Rightarrow> Inr (concat (received stream))
                      | Some e \<Rightarrow> Inl (Thrown e))))
       \<and> (GeminiX.model this = Some m \<and> GeminiX.chat this = Some c
          \<and> chat_sendMessageStream sdk c (requestOf inputText' (imagePartsOf (Some opts)))
              = (c1, Inr stream) \<longrightarrow>
          sendChatMessage sdk this inputText' (Some opts) s =
            (case calledInOrder callback (received stream) s of
               (s1, Some e) \<Rightarrow> ((this\<lparr>chat := Some c1\<rparr>, s1), Inl (Thrown e))
             | (s1, None) \<Rightarrow>
                 ((this\<lparr>chat := Some c1\<rparr>, s1),
                  case failure stream of
                    None \<Rightarrow> Inr (concat (received stream))
                  | Some e \<Rightarrow> Inl (Thrown e))))
       \<and> calledInOrder (recorder :: (string list, 'e) Callback) chunkTexts calls
           = (calls @ chunkTexts, None)"
  using assms
  by (simp add: sendMessage_def sendChatMessage_def streamResponseOf_Some
      consumeStream_calledInOrder [OF assms] calledInOrder_recorder
      split: prod.splits option.splits)

theorem streaming_delivers_every_chunk_in_order_witness:
  "sendMessage doubleSDK
        \<lparr>generativeAI = None, model = Some ''gemini-pro'', chat = Some []\<rparr> ''hi''
        (Some \<lparr>SendMessageOptions.images = None, onResponseChunk = Some recorder\<rparr>) []
     = ([''Hello'', '' world''], Inr ''Hello world'')
   \<and> sendChatMessage doubleSDK
        \<lparr>generativeAI = None, model = Some ''gemini-pro'', chat = Some []\<rparr> ''hi''
        (Some \<lparr>SendMessageOptions.images = None, onResponseChunk = Some recorder\<rparr>) []
     = ((\<lparr>generativeAI = None, model = Some ''gemini-pro'',
          chat = Some [\<lparr>role = ''user'', Content.parts = Some [TextPart ''hi'']\<rparr>,
                       \<lparr>role = ''model'', Content.parts = Some [TextPart ''Hello world'']\<rparr>]\<rparr>,
         [''Hello'', '' world'']),
        Inr ''Hello world'')
   \<and> sendMessage doubleSDK
        \<lparr>generativeAI = None, model = Some ''gemini-pro'', chat = Some []\<rparr> ''hi''
        (Some \<lparr>SendMessageOptions.images = None,
               onResponseChunk = Some (\<lambda>chunkText calls. (calls @ [chunkText], Some ''stop''))\<rparr>)
        []
     = ([''Hello''], Inl (Thrown ''stop''))"
proof -
  let ?st = "\<lparr>generativeAI = None, model = Some ''gemini-pro'',
                chat = Some ([] :: Content list)\<rparr>"
  let ?stream = "Chunk (Inr ''Hello'') (Chunk (Inr '' world'') (End :: string ResponseStream))"
  let ?stopper = "(\<lambda>chunkText calls. (calls @ [chunkText], Some ''stop''))
                    :: (string list, string) Callback"
  have cb: "onResponseChunk \<lparr>SendMessageOptions.images = None, onResponseChunk = Some recorder\<rparr>
              = Some (recorder :: (string list, string) Callback)"
    by simp
  have cb2: "onResponseChunk \<lparr>SendMessageOptions.images = None, onResponseChunk = Some ?stopper\<rparr>
              = Some ?stopper"
    by simp
  show ?thesis
    using streaming_delivers_every_chunk_in_order
      [OF cb, where this = ?st and m = "''gemini-pro''" and sdk = doubleSDK
         and inputText' = "''hi''" and stream = ?stream and c = "[]" and s = "[]"
         and chunkTexts = "[]" and calls = "[]"
         and ?c1.0 = "exchange [] (requestOf ''hi'' (imagePartsOf (Some \<lparr>SendMessageOptions.images = None, onResponseChunk = Some (recorder :: (string list, string) Callback)\<rparr>)))"]
      streaming_delivers_every_chunk_in_order
      [OF cb2, where this = ?st and m = "''gemini-pro''" and sdk = doubleSDK
         and inputText' = "''hi''" and stream = ?stream and c = "[]" and s = "[]"
         and chunkTexts = "[]" and calls = "[]"
         and ?c1.0 = "exchange [] (requestOf ''hi'' (imagePartsOf (Some \<lparr>SendMessageOptions.images = None, onResponseChunk = Some ?stopper\<rparr>)))"]
    by (simp add: doubleSDK_simps recorder_def exchange_def requestText_def requestOf_def)
qed

text \<open>
  Claim C3. Let the single-shot request answer the text \<open>fullText\<close> and let the streamed
  request, for the same input text and images, deliver chunks that concatenate to
  \<open>fullText\<close>. Then the form without \<^verbatim>\<open>onResponseChunk\<close> resolves to \<open>fullText\<close>, the
  form with a callback that does not throw resolves to \<open>fullText\<close> as well, and with any
  callback at all the streaming form resolves to no other text.
\<close>

theorem streaming_equals_single_shot:
  assumes "GeminiX.model this = Some m"
      and "onResponseChunk opts = Some callback"
      and "model_generateContent sdk m (requestOf inputText' (imagePartsOf (Some opts)))
             = Inr (Inr fullText)"
      and "model_generateContentStream sdk m (requestOf inputText' (imagePartsOf (Some opts)))
             = Inr stream"
      and "failure stream = None"
      and "concat (received stream) = fullText"
  shows "snd (sendMessage sdk this inputText' (Some (opts\<lparr>onResponseChunk := None\<rparr>)) s)
           = Inr fullText
       \<and> ((\<forall>t s. snd (callback t s) = None) \<longrightarrow>
            snd (sendMessage sdk this inputText' (Some opts) s) = Inr fullText)
       \<and> (snd (sendMessage sdk this inputText' (Some opts) s) = Inr t \<longrightarrow> t = fullText)"
proof -
  have same_parts: "imagePartsOf (Some (opts\<lparr>onResponseChunk := None\<rparr>)) = imagePartsOf (Some opts)"
    by (simp add: imagePartsOf_def)
  have single: "snd (sendMessage sdk this inputText' (Some (opts\<lparr>onResponseChunk := None\<rparr>)) s)
                  = Inr fullText"
    using assms(1,3)
    by (simp add: sendMessage_def streamResponseOf_def same_parts responseTextOf_def)
  have streamed: "sendMessage sdk this inputText' (Some opts) s
                    = consumeStream (Some opts) stream [] s"
    using assms(1,2,4) by (simp add: sendMessage_def streamResponseOf_Some)
  have quiet: "(\<forall>t s. snd (callback t s) = None) \<longrightarrow>
                 snd (sendMessage sdk this inputText' (Some opts) s) = Inr fullText"
    using assms(2,5,6) by (simp add: streamed consumeStream_quiet split: option.splits)
  have resolved: "snd (sendMessage sdk this inputText' (Some opts) s) = Inr t \<longrightarrow> t = fullText"
  proof
    assume "snd (sendMessage sdk this inputText' (Some opts) s) = Inr t"
    then have "consumeStream (Some opts) stream [] s
                 = (fst (consumeStream (Some opts) stream [] s), Inr t)"
      by (simp add: streamed prod_eq_iff)
    from consumeStream_resolved [OF this] assms(6) show "t = fullText" by simp
  qed
  from single quiet resolved show ?thesis by blast
qed

theorem streaming_equals_single_shot_witness:
  "snd (sendMessage doubleSDK
          \<lparr>generativeAI = None, model = Some ''gemini-pro'', chat = (None :: Content list option)\<rparr> ''hi''
          (Some \<lparr>SendMessageOptions.images = None,
                 onResponseChunk = (None :: (string list, string) Callback option)\<rparr>) [])
     = Inr ''Hello world''
   \<and> snd (sendMessage doubleSDK
          \<lparr>generativeAI = None, model = Some ''gemini-pro'', chat = (None :: Content list option)\<rparr> ''hi''
          (Some \<lparr>SendMessageOptions.images = None, onResponseChunk = Some recorder\<rparr>) [])
     = Inr ''Hello world''"
proof -
  let ?this = "\<lparr>generativeAI = None, model = Some ''gemini-pro'', chat = (None :: Content list option)\<rparr>"
  let ?opts = "\<lparr>SendMessageOptions.images = None,
                onResponseChunk = Some (recorder :: (string list, string) Callback)\<rparr>"
  let ?stream = "Chunk (Inr ''Hello'') (Chunk (Inr '' world'') (End :: string ResponseStream))"
  have h1: "GeminiX.model ?this = Some ''gemini-pro''" by simp
  have h2: "onResponseChunk ?opts = Some recorder" by simp
  have h3: "model_generateContent doubleSDK ''gemini-pro'' (requestOf ''hi'' (imagePartsOf (Some ?opts)))
              = Inr (Inr ''Hello world'')"
    by (simp add: doubleSDK_simps)
  have h4: "model_generateContentStream doubleSDK ''gemini-pro''
              (requestOf ''hi'' (imagePartsOf (Some ?opts))) = Inr ?stream"
    by (simp add: doubleSDK_simps)
  have h5: "failure ?stream = None" by simp
  have h6: "concat (received ?stream) = ''Hello world''" by simp
  show ?thesis
    using streaming_equals_single_shot
      [OF h1 h2 h3 h4 h5 h6, where s = "[]" and t = "''Hello world''"]
    by (simp add: recorder_def)
qed

section \<open>The lifecycle guards\<close>

lemma consumeStream_never_Error:
  "consumeStream options stream responseText s \<noteq> (s1, Inl (Error msg))"
  using consumeStream_no_Error [of options stream responseText s msg] by auto

lemma sendMessage_Error:
  "snd (sendMessage sdk this inputText' options s) = Inl (Error msg) \<Longrightarrow>
     GeminiX.model this = None \<and> msg = ''Model not initialized''"
  using consumeStream_no_Error [of options _ "[]" s msg]
  by (auto simp add: sendMessage_def responseTextOf_def Let_def
      split: option.splits sum.splits if_splits)

lemma sendChatMessage_Error:
  "snd (sendChatMessage sdk this inputText' options s) = Inl (Error msg) \<Longrightarrow>
     (GeminiX.model this = None \<and> msg = ''Model not initialized'')
     \<or> (GeminiX.chat this = None \<and> msg = ''Chat not initialized'')"
  by (auto simp add: sendChatMessage_def responseTextOf_def Let_def consumeStream_never_Error
      split: option.splits sum.splits if_splits prod.splits)

lemma other_calls_Error:
  "snd (initModel sdk this params) \<noteq> Inl (Error msg)"
  "countTokens sdk this inputText' countOptions = Inl (Error msg) \<Longrightarrow>
     GeminiX.model this = None \<and> msg = ''Model not initialized''"
  "snd (initChat sdk this chatHistory) = Inl (Error msg) \<Longrightarrow>
     GeminiX.model this = None \<and> msg = ''Model not initialized''"
  "countChatTokens sdk this chatOptions = Inl (Error msg) \<Longrightarrow>
     (GeminiX.model this = None \<and> msg = ''Model not initialized'')
     \<or> (GeminiX.chat this = None \<and> msg = ''Chat not initialized'')"
  "getChatHistory sdk this = Inl (Error msg) \<Longrightarrow>
     (GeminiX.model this = None \<and> msg = ''Model not initialized'')
     \<or> (GeminiX.chat this = None \<and> msg = ''Chat not initialized'')"
  by (auto simp add: initModel_def countTokens_def initChat_def countChatTokens_def
      getChatHistory_def historyLoop_rejects Let_def split: option.splits sum.splits)

lemma getChatHistory_TypeError:
  "(getChatHistory sdk this = Inl TypeError) =
     (\<exists>m c history.
        GeminiX.model this = Some m \<and> GeminiX.chat this = Some c
        \<and> chat_getHistory sdk c = Inr history
        \<and> (\<exists>turn \<in> set history. Content.parts turn = None))"
  by (auto simp add: getChatHistory_def historyLoop_rejects split: option.splits sum.splits)

text \<open>
  Claim C1. The adapter originates an error besides the two guard errors. With a model
  handle and a conversation handle, and the SDK answering \<^verbatim>\<open>getHistory\<close> with a
  transcript whose second turn is \<^verbatim>\<open>{role: "model"}\<close> without parts,
  \<^verbatim>\<open>getChatHistory\<close> rejects with the \<^verbatim>\<open>TypeError\<close> of its own loop over
  \<^verbatim>\<open>content.parts\<close>: that is neither the not-initialized error nor the
  chat-not-initialized error, and it is not a value thrown by the SDK or a callback.
\<close>

theorem getChatHistory_rejects_turn_without_parts:
  "chat_getHistory doubleSDK
     [\<lparr>role = ''user'', Content.parts = Some [TextPart ''hi'']\<rparr>,
      \<lparr>role = ''model'', Content.parts = None\<rparr>]
     = Inr [\<lparr>role = ''user'', Content.parts = Some [TextPart ''hi'']\<rparr>,
            \<lparr>role = ''model'', Content.parts = None\<rparr>]
   \<and> getChatHistory doubleSDK
       \<lparr>generativeAI = None, model = Some ''gemini-pro'',
        chat = Some [\<lparr>role = ''user'', Content.parts = Some [TextPart ''hi'']\<rparr>,
                     \<lparr>role = ''model'', Content.parts = None\<rparr>]\<rparr>
     = Inl TypeError
   \<and> (TypeError :: string error) \<noteq> NotInitializedError
   \<and> (TypeError :: string error) \<noteq> ChatNotInitializedError"
  by (simp add: getChatHistory_def doubleSDK_simps NotInitializedError_def
      ChatNotInitializedError_def)

text \<open>
  What does hold of the guards, for every input: without a model handle the six
  guarded methods fail with the not-initialized error; with a model handle but without
  a conversation handle the three conversation methods fail with the
  chat-not-initialized error; and whenever a public method fails with an \<^verbatim>\<open>Error\<close>
  that the adapter constructed, it is one of these two and the handle in question is
  missing.
\<close>

lemma guard_errors:
  "(GeminiX.model this = None \<longrightarrow>
      snd (sendMessage sdk this inputText' options s) = Inl NotInitializedError
      \<and> countTokens sdk this inputText' countOptions = Inl NotInitializedError
      \<and> snd (initChat sdk this chatHistory) = Inl NotInitializedError
      \<and> snd (sendChatMessage sdk this inputText' options s) = Inl NotInitializedError
      \<and> countChatTokens sdk this chatOptions = Inl NotInitializedError
      \<and> getChatHistory sdk this = Inl NotInitializedError)
   \<and> (GeminiX.model this \<noteq> None \<and> GeminiX.chat this = None \<longrightarrow>
      snd (sendChatMessage sdk this inputText' options s) = Inl ChatNotInitializedError
      \<and> countChatTokens sdk this chatOptions = Inl ChatNotInitializedError
      \<and> getChatHistory sdk this = Inl ChatNotInitializedError)
   \<and> (snd (initModel sdk this params) = Inl (Error msg)
       \<or> snd (sendMessage sdk this inputText' options s) = Inl (Error msg)
       \<or> countTokens sdk this inputText' countOptions = Inl (Error msg)
       \<or> snd (initChat sdk this chatHistory) = Inl (Error msg)
       \<or> snd (sendChatMessage sdk this inputText' options s) = Inl (Error msg)
       \<or> countChatTokens sdk this chatOptions = Inl (Error msg)
       \<or> getChatHistory sdk this = Inl (Error msg)
       \<longrightarrow> (GeminiX.model this = None \<and> Error msg = (NotInitializedError :: 'e error))
           \<or> (GeminiX.chat this = None \<and> Error msg = (ChatNotInitializedError :: 'e error)))"
proof -
  have no_model: "GeminiX.model this = None \<longrightarrow>
      snd (sendMessage sdk this inputText' options s) = Inl NotInitializedError
      \<and> countTokens sdk this inputText' countOptions = Inl NotInitializedError
      \<and> snd (initChat sdk this chatHistory) = Inl NotInitializedError
      \<and> snd (sendChatMessage sdk this inputText' options s) = Inl NotInitializedError
      \<and> countChatTokens sdk this chatOptions = Inl NotInitializedError
      \<and> getChatHistory sdk this = Inl NotInitializedError"
    by (simp add: sendMessage_def countTokens_def initChat_def sendChatMessage_def
        countChatTokens_def getChatHistory_def NotInitializedError_def)
  have no_chat: "GeminiX.model this \<noteq> None \<and> GeminiX.chat this = None \<longrightarrow>
      snd (sendChatMessage sdk this inputText' options s) = Inl ChatNotInitializedError
      \<and> countChatTokens sdk this chatOptions = Inl ChatNotInitializedError
      \<and> getChatHistory sdk this = Inl ChatNotInitializedError"
    by (auto simp add: sendChatMessage_def countChatTokens_def getChatHistory_def
        ChatNotInitializedError_def)
  have only: "snd (initModel sdk this params) = Inl (Error msg)
       \<or> snd (sendMessage sdk this inputText' options s) = Inl (Error msg)
       \<or> countTokens sdk this inputText' countOptions = Inl (Error msg)
       \<or> snd (initChat sdk this chatHistory) = Inl (Error msg)
       \<or> snd (sendChatMessage sdk this inputText' options s) = Inl (Error msg)
       \<or> countChatTokens sdk this chatOptions = Inl (Error msg)
       \<or> getChatHistory sdk this = Inl (Error msg)
       \<longrightarrow> (GeminiX.model this = None \<and> Error msg = (NotInitializedError :: 'e error))
           \<or> (GeminiX.chat this = None \<and> Error msg = (ChatNotInitializedError :: 'e error))"
    using sendMessage_Error [of sdk this inputText' options s msg]
      sendChatMessage_Error [of sdk this inputText' options s msg]
      other_calls_Error(1) [of sdk this params msg]
      other_calls_Error(2) [of sdk this inputText' countOptions msg]
      other_calls_Error(3) [of sdk this chatHistory msg]
      other_calls_Error(4) [of sdk this chatOptions msg]
      other_calls_Error(5) [of sdk this msg]
    unfolding NotInitializedError_def ChatNotInitializedError_def
    by blast
  from no_model no_chat only show ?thesis by blast
qed

section \<open>The state invariant\<close>

lemma step_keeps_model:
  "GeminiX.model this \<noteq> None \<Longrightarrow> GeminiX.model (fst (step sdk (this, s) call)) \<noteq> None"
  by (cases call)
    (auto simp add: initModel_def initChat_def sendChatMessage_def Let_def
      split: option.splits sum.splits prod.splits if_splits)

lemma step_keeps_invariant:
  assumes "GeminiX.chat this \<noteq> None \<longrightarrow> GeminiX.model this \<noteq> None"
  shows "GeminiX.chat (fst (step sdk (this, s) call)) \<noteq> None \<longrightarrow>
         GeminiX.model (fst (step sdk (this, s) call)) \<noteq> None"
  using assms
  by (cases call)
    (auto simp add: initModel_def initChat_def sendChatMessage_def Let_def
      split: option.splits sum.splits prod.splits if_splits)

lemma run_keeps_invariant:
  "GeminiX.chat (fst st) \<noteq> None \<longrightarrow> GeminiX.model (fst st) \<noteq> None \<Longrightarrow>
   GeminiX.chat (fst (run sdk st calls)) \<noteq> None \<longrightarrow> GeminiX.model (fst (run sdk st calls)) \<noteq> None"
proof (induction calls arbitrary: st)
  case Nil
  then show ?case by simp
next
  case (Cons call calls)
  obtain this s where st: "st = (this, s)" by (cases st)
  from Cons.prems st
  have "GeminiX.chat (fst (step sdk st call)) \<noteq> None \<longrightarrow>
        GeminiX.model (fst (step sdk st call)) \<noteq> None"
    using step_keeps_invariant [of this sdk s call] by simp
  from Cons.IH [OF this] show ?case by simp
qed

text \<open>
  Claim C10. After every sequence of calls that starts in the uninitialized state, if
  the conversation handle exists then the model handle exists: \<^verbatim>\<open>initChat\<close> without a
  model handle fails and leaves the state as it was, and no call turns an existing
  model handle into \<^verbatim>\<open>undefined\<close>.
\<close>

theorem chat_handle_implies_model_handle:
  "(GeminiX.chat (fst (run sdk (uninitialized, s) calls)) \<noteq> None \<longrightarrow>
      GeminiX.model (fst (run sdk (uninitialized, s) calls)) \<noteq> None)
   \<and> (GeminiX.model this = None \<longrightarrow>
      initChat sdk this chatHistory = (this, Inl NotInitializedError))
   \<and> (GeminiX.model this \<noteq> None \<longrightarrow>
      GeminiX.model (fst (step sdk (this, s) call)) \<noteq> None)"
proof -
  have "GeminiX.chat (fst (run sdk (uninitialized, s) calls)) \<noteq> None \<longrightarrow>
        GeminiX.model (fst (run sdk (uninitialized, s) calls)) \<noteq> None"
    by (rule run_keeps_invariant) (simp add: uninitialized_def)
  moreover have "GeminiX.model this = None \<longrightarrow>
      initChat sdk this chatHistory = (this, Inl NotInitializedError)"
    by (simp add: initChat_def NotInitializedError_def)
  moreover have "GeminiX.model this \<noteq> None \<longrightarrow>
      GeminiX.model (fst (step sdk (this, s) call)) \<noteq> None"
    using step_keeps_model [of this sdk s call] by blast
  ultimately show ?thesis by blast
qed

theorem chat_handle_implies_model_handle_witness:
  "fst (run doubleSDK (uninitialized, 0::nat)
         [InitModel \<lparr>modelName = ''gemini-pro'', apiKey = ''key'', temperature = None,
                     topK = None, topP = None, maxOutputTokens = None, stopSequences = None,
                     safetySettings = Some [(''HARASSMENT'', ''LOW_AND_ABOVE'')]\<rparr>,
          InitChat None,
          SendChatMessage ''hi'' None])
     = \<lparr>generativeAI = Some (GoogleGenerativeAI ''key''), model = Some ''gemini-pro'',
        chat = Some [\<lparr>role = ''user'', Content.parts = Some [TextPart ''hi'']\<rparr>,
                     \<lparr>role = ''model'', Content.parts = Some [TextPart ''Hello world'']\<rparr>]\<rparr>
   \<and> initChat doubleSDK uninitialized None = (uninitialized, Inl NotInitializedError)
   \<and> GeminiX.model
        (fst (step doubleSDK
               (\<lparr>generativeAI = None, model = Some ''gemini-pro'', chat = None\<rparr>, 0::nat)
               (InitModel \<lparr>modelName = ''gemini-1.5'', apiKey = ''key'', temperature = None,
                     topK = None, topP = None, maxOutputTokens = None, stopSequences = None,
                     safetySettings = None\<rparr>)))
     = Some ''gemini-1.5''"
  using chat_handle_implies_model_handle
    [where sdk = doubleSDK and s = "0::nat"
       and this = "uninitialized :: (string, Content list) GeminiX"
       and chatHistory = None
       and call = "InitChat None :: (nat, nat, string) Call"
       and calls = "[InitModel \<lparr>modelName = ''gemini-pro'', apiKey = ''key'', temperature = None,
                     topK = None, topP = None, maxOutputTokens = None, stopSequences = None,
                     safetySettings = Some [(''HARASSMENT'', ''LOW_AND_ABOVE'')]\<rparr>,
          InitChat None,
          SendChatMessage ''hi'' None]"]
    chat_handle_implies_model_handle
    [where sdk = doubleSDK and s = "0::nat"
       and this = "\<lparr>generativeAI = None, model = Some ''gemini-pro'',
                     chat = (None :: Content list option)\<rparr>"
       and chatHistory = None
       and call = "InitModel \<lparr>modelName = ''gemini-1.5'', apiKey = ''key'', temperature = None,
                     topK = None, topP = None, maxOutputTokens = None, stopSequences = None,
                     safetySettings = None\<rparr> :: (nat, nat, string) Call"
       and calls = "[]"]
  by (simp add: uninitialized_def initModel_def initChat_def sendChatMessage_def doubleSDK_simps
      streamResponseOf_def imagePartsOf_def requestOf_def responseTextOf_def exchange_def
      requestText_def seedHistory_def Let_def NotInitializedError_def)

end
